theory Spec2Isabelle
  imports Complex_Main
begin

section \<open>Data model of sensor\_dashboard.py\<close>

text \<open>
  Python floats are modelled as the reals, so rounding, infinities and NaN are outside the
  model. Identifiers (uuid4 strings) are strings. A timestamp is the number of microseconds
  since the epoch: the source stores \<open>datetime.now(timezone.utc).isoformat()\<close> and
  compares these texts in SQL, and on UTC timestamps of that format the textual order is the
  chronological one. Every value the source takes from its environment (a fresh uuid, the
  clock) is a parameter of the operation that reads it.
\<close>

datatype SensorType = TEMPERATURE | HUMIDITY | PRESSURE | CO2 | LIGHT | MOTION | POWER

datatype ReadingQuality = GOOD | DEGRADED | ERROR

datatype AlertType = THRESHOLD | ANOMALY | OFFLINE

datatype AlertSeverity = INFO | WARNING | CRITICAL

text \<open>The enum constructors \<open>SensorType(s)\<close> and \<open>ReadingQuality(s)\<close>: lookup by value,
  ValueError when no member has it.\<close>

definition SensorType_of :: "string \<Rightarrow> SensorType option" where
  "SensorType_of s =
     (if s = ''temperature'' then Some TEMPERATURE
      else if s = ''humidity'' then Some HUMIDITY
      else if s = ''pressure'' then Some PRESSURE
      else if s = ''co2'' then Some CO2
      else if s = ''light'' then Some LIGHT
      else if s = ''motion'' then Some MOTION
      else if s = ''power'' then Some POWER
      else None)"

definition ReadingQuality_of :: "string \<Rightarrow> ReadingQuality option" where
  "ReadingQuality_of s =
     (if s = ''good'' then Some GOOD
      else if s = ''degraded'' then Some DEGRADED
      else if s = ''error'' then Some ERROR
      else None)"


text \<open>The table \<open>DEFAULT_THRESHOLDS\<close>, a dict from sensor type to (min, max).\<close>

fun DEFAULT_THRESHOLDS :: "SensorType \<Rightarrow> (real \<times> real) option" where
  "DEFAULT_THRESHOLDS TEMPERATURE = Some (-40, 85)"
| "DEFAULT_THRESHOLDS HUMIDITY = Some (0, 100)"
| "DEFAULT_THRESHOLDS PRESSURE = Some (870, 1084)"
| "DEFAULT_THRESHOLDS CO2 = Some (400, 5000)"
| "DEFAULT_THRESHOLDS LIGHT = Some (0, 100000)"
| "DEFAULT_THRESHOLDS MOTION = Some (0, 1)"
| "DEFAULT_THRESHOLDS POWER = Some (0, 10000)"

record sensor =
  s_id :: string
  s_device_id :: string
  s_type :: SensorType
  s_unit :: string
  min_value :: real
  max_value :: real
  calibration_offset :: real
  s_name :: "string option"
  s_location :: "string option"

record reading =
  r_id :: string
  r_sensor_id :: string
  raw_value :: real
  calibrated_value :: real
  timestamp :: int
  quality :: ReadingQuality

text \<open>An alert message is an f-string over numbers; the model keeps the numbers it is
  built from instead of their decimal rendering.\<close>

datatype message =
    BelowMinimum real real
  | AboveMaximum real real
  | AnomalyMessage real real real real
  | OfflineMessage string

record alert =
  a_id :: string
  a_sensor_id :: string
  a_type :: AlertType
  severity :: AlertSeverity
  message :: message
  triggered_at :: int
  resolved_at :: "int option"

definition is_active :: "alert \<Rightarrow> bool" where
  "is_active a = (resolved_at a = None)"

text \<open>The three tables of \<open>init_db\<close>, each in insertion (rowid) order.\<close>

record db =
  sensors :: "sensor list"
  readings :: "reading list"
  alerts :: "alert list"

datatype error =
    SensorNotFound string
  | AlertNotFound string
  | InvalidEnum string
  | IntegrityError
  | OverflowError

section \<open>Storage\<close>

text \<open>
  Every \<open>with db_conn(...)\<close> block is one transaction: committed when the block ends,
  rolled back when the block raises. An operation therefore returns the database as its
  last committed transaction left it, together with its value or the exception.
  INSERT raises IntegrityError on a duplicate primary key and, with
  \<open>PRAGMA foreign_keys = ON\<close>, on a \<open>sensor_id\<close> that names no sensor.
\<close>

definition insert_sensor :: "db \<Rightarrow> sensor \<Rightarrow> error + db" where
  "insert_sensor d s =
     (if s_id s \<in> set (map s_id (sensors d)) then Inl IntegrityError
      else Inr (d\<lparr>sensors := sensors d @ [s]\<rparr>))"

definition insert_reading :: "db \<Rightarrow> reading \<Rightarrow> error + db" where
  "insert_reading d r =
     (if r_id r \<in> set (map r_id (readings d)) then Inl IntegrityError
      else if r_sensor_id r \<notin> set (map s_id (sensors d)) then Inl IntegrityError
      else Inr (d\<lparr>readings := readings d @ [r]\<rparr>))"

definition insert_alert :: "db \<Rightarrow> alert \<Rightarrow> error + db" where
  "insert_alert d a =
     (if a_id a \<in> set (map a_id (alerts d)) then Inl IntegrityError
      else if a_sensor_id a \<notin> set (map s_id (sensors d)) then Inl IntegrityError
      else Inr (d\<lparr>alerts := alerts d @ [a]\<rparr>))"

text \<open>
  \<open>datetime.now(timezone.utc) - timedelta(...)\<close>: OverflowError when the result leaves
  the range of \<open>datetime\<close> (years 1 to 9999; a timedelta too large to build would
  leave it as well).
\<close>

definition DATETIME_MIN :: int where
  "DATETIME_MIN = - 62135596800000000"

definition DATETIME_MAX :: int where
  "DATETIME_MAX = 253402300799999999"

definition minus_micros :: "int \<Rightarrow> int \<Rightarrow> error + int" where
  "minus_micros now delta =
     (let since = now - delta
      in if since < DATETIME_MIN \<or> DATETIME_MAX < since then Inl OverflowError
         else Inr since)"

definition minus_minutes :: "int \<Rightarrow> int \<Rightarrow> error + int" where
  "minus_minutes now m = minus_micros now (m * 60000000)"


section \<open>Sensor CRUD\<close>

definition get_sensor :: "db \<Rightarrow> string \<Rightarrow> error + sensor" where
  "get_sensor d sensor_id =
     (case find (\<lambda>s. s_id s = sensor_id) (sensors d) of
        None \<Rightarrow> Inl (SensorNotFound sensor_id)
      | Some s \<Rightarrow> Inr s)"

text \<open>\<open>new_id\<close> is the value of \<open>str(uuid.uuid4())\<close>.\<close>

definition add_sensor ::
  "db \<Rightarrow> string \<Rightarrow> string \<Rightarrow> string \<Rightarrow> real option \<Rightarrow> real option \<Rightarrow> real \<Rightarrow>
   string option \<Rightarrow> string option \<Rightarrow> string \<Rightarrow> db \<times> (error + sensor)" where
  "add_sensor d device_id sensor_type unit min_v max_v offset name location new_id =
     (case SensorType_of sensor_type of
        None \<Rightarrow> (d, Inl (InvalidEnum sensor_type))
      | Some stype \<Rightarrow>
          (let defaults = (case DEFAULT_THRESHOLDS stype of
                             Some p \<Rightarrow> p | None \<Rightarrow> (- 999, 999));
               min_val = (case min_v of Some v \<Rightarrow> v | None \<Rightarrow> fst defaults);
               max_val = (case max_v of Some v \<Rightarrow> v | None \<Rightarrow> snd defaults)
           in case insert_sensor d
                \<lparr>s_id = new_id, s_device_id = device_id, s_type = stype, s_unit = unit,
                 min_value = min_val, max_value = max_val, calibration_offset = offset,
                 s_name = name, s_location = location\<rparr> of
                Inl e \<Rightarrow> (d, Inl e)
              | Inr d' \<Rightarrow> (d', get_sensor d' new_id)))"

definition update_calibration :: "db \<Rightarrow> string \<Rightarrow> real \<Rightarrow> db \<times> (error + sensor)" where
  "update_calibration d sensor_id offset =
     (let d' = d\<lparr>sensors :=
                  map (\<lambda>s. if s_id s = sensor_id then s\<lparr>calibration_offset := offset\<rparr> else s)
                      (sensors d)\<rparr>
      in (d', get_sensor d' sensor_id))"

section \<open>Alerts\<close>

text \<open>\<open>_create_alert\<close>; \<open>aid\<close> is its uuid and \<open>now\<close> its clock reading.\<close>

definition create_alert ::
  "db \<Rightarrow> string \<Rightarrow> AlertType \<Rightarrow> AlertSeverity \<Rightarrow> message \<Rightarrow> string \<Rightarrow> int \<Rightarrow>
   db \<times> (error + alert)" where
  "create_alert d sensor_id alert_type sev msg aid now =
     (let a = \<lparr>a_id = aid, a_sensor_id = sensor_id, a_type = alert_type, severity = sev,
               message = msg, triggered_at = now, resolved_at = None\<rparr>
      in case insert_alert d a of
           Inl e \<Rightarrow> (d, Inl e)
         | Inr d' \<Rightarrow> (d', Inr a))"

text \<open>The UPDATE and the SELECT share one transaction, which commits; the ValueError
  is raised after it, when the SELECT found no row.\<close>

definition resolve_alert :: "db \<Rightarrow> string \<Rightarrow> int \<Rightarrow> db \<times> (error + alert)" where
  "resolve_alert d alert_id now =
     (let d' = d\<lparr>alerts :=
                  map (\<lambda>a. if a_id a = alert_id then a\<lparr>resolved_at := Some now\<rparr> else a)
                      (alerts d)\<rparr>
      in (d', case find (\<lambda>a. a_id a = alert_id) (alerts d') of
                None \<Rightarrow> Inl (AlertNotFound alert_id)
              | Some a \<Rightarrow> Inr a))"

definition mark_sensor_offline :: "db \<Rightarrow> string \<Rightarrow> string \<Rightarrow> int \<Rightarrow> db \<times> (error + alert)" where
  "mark_sensor_offline d sensor_id aid now =
     create_alert d sensor_id OFFLINE WARNING (OfflineMessage sensor_id) aid now"

section \<open>Readings and thresholds\<close>

text \<open>
  \<open>ORDER BY timestamp\<close> is a stable sort of the rows in insertion order, which is the
  order of the index on \<open>(sensor_id, timestamp)\<close>; \<open>ORDER BY timestamp DESC LIMIT 1\<close>
  is its last row.
\<close>

definition get_current :: "db \<Rightarrow> string \<Rightarrow> reading option" where
  "get_current d sensor_id =
     (case sort_key timestamp (filter (\<lambda>r. r_sensor_id r = sensor_id) (readings d)) of
        [] \<Rightarrow> None
      | rs \<Rightarrow> Some (last rs))"

definition check_thresholds :: "db \<Rightarrow> string \<Rightarrow> string \<Rightarrow> int \<Rightarrow> db \<times> (error + alert option)" where
  "check_thresholds d sensor_id aid anow =
     (case get_current d sensor_id of
        None \<Rightarrow> (d, Inr None)
      | Some rd \<Rightarrow>
          (case get_sensor d sensor_id of
             Inl e \<Rightarrow> (d, Inl e)
           | Inr sensor \<Rightarrow>
               (let val = calibrated_value rd
                in if val < min_value sensor then
                     (case create_alert d sensor_id THRESHOLD CRITICAL
                             (BelowMinimum val (min_value sensor)) aid anow of
                        (d', Inl e) \<Rightarrow> (d', Inl e)
                      | (d', Inr a) \<Rightarrow> (d', Inr (Some a)))
                   else if val > max_value sensor then
                     (case create_alert d sensor_id THRESHOLD CRITICAL
                             (AboveMaximum val (max_value sensor)) aid anow of
                        (d', Inl e) \<Rightarrow> (d', Inl e)
                      | (d', Inr a) \<Rightarrow> (d', Inr (Some a)))
                   else (d, Inr None))))"

text \<open>
  \<open>log_reading\<close>: \<open>rid\<close> and \<open>now\<close> are the uuid and clock reading of the reading,
  \<open>aid\<close> and \<open>anow\<close> those that \<open>_create_alert\<close> takes if \<open>check_thresholds\<close> calls it.
  The reading is committed before \<open>check_thresholds\<close> runs.
\<close>

definition log_reading ::
  "db \<Rightarrow> string \<Rightarrow> real \<Rightarrow> string \<Rightarrow> string \<Rightarrow> int \<Rightarrow> string \<Rightarrow> int \<Rightarrow> db \<times> (error + reading)" where
  "log_reading d sensor_id val qual rid now aid anow =
     (case get_sensor d sensor_id of
        Inl e \<Rightarrow> (d, Inl e)
      | Inr sensor \<Rightarrow>
          (let calibrated = val + calibration_offset sensor
           in case ReadingQuality_of qual of
                None \<Rightarrow> (d, Inl (InvalidEnum qual))
              | Some q \<Rightarrow>
                  (let rd = \<lparr>r_id = rid, r_sensor_id = sensor_id, raw_value = val,
                             calibrated_value = calibrated, timestamp = now, quality = q\<rparr>
                   in case insert_reading d rd of
                        Inl e \<Rightarrow> (d, Inl e)
                      | Inr d1 \<Rightarrow>
                          (case check_thresholds d1 sensor_id aid anow of
                             (d2, Inl e) \<Rightarrow> (d2, Inl e)
                           | (d2, Inr _) \<Rightarrow> (d2, Inr rd)))))"

text \<open>An entry of \<open>batch_log\<close> is a dict with the keys \<open>sensor_id\<close>, \<open>value\<close> and,
  optionally, \<open>quality\<close>. Each call of \<open>log_reading\<close> has its own uuids and clock
  readings.\<close>

record entry =
  e_sensor_id :: string
  e_value :: real
  e_quality :: "string option"

record ingest_env =
  reading_uuid :: string
  reading_now :: int
  alert_uuid :: string
  alert_now :: int

text \<open>The list comprehension of \<open>batch_log\<close> stops at the first call that raises; what
  the earlier calls committed stays.\<close>

fun batch_log :: "db \<Rightarrow> (entry \<times> ingest_env) list \<Rightarrow> db \<times> (error + reading list)" where
  "batch_log d [] = (d, Inr [])"
| "batch_log d ((e, env) # rest) =
     (case log_reading d (e_sensor_id e) (e_value e)
             (case e_quality e of Some q \<Rightarrow> q | None \<Rightarrow> ''good'')
             (reading_uuid env) (reading_now env) (alert_uuid env) (alert_now env) of
        (d1, Inl err) \<Rightarrow> (d1, Inl err)
      | (d1, Inr r) \<Rightarrow>
          (case batch_log d1 rest of
             (d2, Inl err) \<Rightarrow> (d2, Inl err)
           | (d2, Inr rs) \<Rightarrow> (d2, Inr (r # rs))))"


section \<open>Statistics\<close>

text \<open>\<open>statistics.mean\<close> and \<open>statistics.stdev\<close> (the sample standard deviation, dividing
  by n - 1). The source calls the first on non-empty data and the second on two or more
  points only.\<close>

definition mean :: "real list \<Rightarrow> real" where
  "mean xs = sum_list xs / real (length xs)"

definition stdev :: "real list \<Rightarrow> real" where
  "stdev xs = sqrt (sum_list (map (\<lambda>x. (x - mean xs)\<^sup>2) xs) / real (length xs - 1))"







section \<open>Anomaly detection\<close>

text \<open>The query of \<open>detect_anomaly\<close>: the calibrated values of the sensor's readings
  since \<open>since\<close> whose quality is not 'error', by timestamp.\<close>

definition anomaly_values :: "db \<Rightarrow> string \<Rightarrow> int \<Rightarrow> real list" where
  "anomaly_values d sensor_id since =
     map calibrated_value
       (sort_key timestamp
          (filter (\<lambda>r. r_sensor_id r = sensor_id \<and> since \<le> timestamp r \<and> quality r \<noteq> ERROR)
                  (readings d)))"

definition detect_anomaly ::
  "db \<Rightarrow> string \<Rightarrow> int \<Rightarrow> real \<Rightarrow> int \<Rightarrow> string \<Rightarrow> int \<Rightarrow> db \<times> (error + alert option)" where
  "detect_anomaly d sensor_id window z_threshold now aid anow =
     (case minus_minutes now window of
        Inl e \<Rightarrow> (d, Inl e)
      | Inr since \<Rightarrow>
          (let vs = anomaly_values d sensor_id since
           in if length vs < 5 then (d, Inr None)
              else
                (let m = mean vs; sd = stdev vs
                 in if sd = 0 then (d, Inr None)
                    else
                      (let latest = last vs; z = \<bar>(latest - m) / sd\<bar>
                       in if z > z_threshold then
                            (let sev = (if z > z_threshold * 1.5 then CRITICAL else WARNING)
                             in case create_alert d sensor_id ANOMALY sev
                                       (AnomalyMessage latest z m sd) aid anow of
                                  (d', Inl e) \<Rightarrow> (d', Inl e)
                                | (d', Inr a) \<Rightarrow> (d', Inr (Some a)))
                          else (d, Inr None)))))"

section \<open>Example databases\<close>

definition demo_sensor :: sensor where
  "demo_sensor =
     \<lparr>s_id = ''s1'', s_device_id = ''dev-1'', s_type = TEMPERATURE, s_unit = ''C'',
      min_value = 0, max_value = 40, calibration_offset = 3 / 2,
      s_name = None, s_location = None\<rparr>"

definition stored :: "string \<Rightarrow> real \<Rightarrow> int \<Rightarrow> ReadingQuality \<Rightarrow> reading" where
  "stored rid c t q =
     \<lparr>r_id = rid, r_sensor_id = ''s1'', raw_value = c - 3 / 2, calibrated_value = c,
      timestamp = t, quality = q\<rparr>"

definition demo_alert :: alert where
  "demo_alert =
     \<lparr>a_id = ''a0'', a_sensor_id = ''s1'', a_type = THRESHOLD, severity = CRITICAL,
      message = AboveMaximum 50 40, triggered_at = 90, resolved_at = None\<rparr>"

definition demo_db :: db where
  "demo_db = \<lparr>sensors = [demo_sensor], readings = [stored ''r0'' 20 100 GOOD],
              alerts = [demo_alert]\<rparr>"

definition flat_db :: db where
  "flat_db =
     \<lparr>sensors = [demo_sensor],
      readings = [stored ''f1'' 22 1 GOOD, stored ''f2'' 22 2 GOOD, stored ''f3'' 22 3 DEGRADED,
                  stored ''f4'' 22 4 GOOD, stored ''f5'' 22 5 GOOD, stored ''f6'' 90 6 ERROR],
      alerts = []\<rparr>"

definition spike_db :: db where
  "spike_db =
     \<lparr>sensors = [demo_sensor],
      readings = [stored ''p1'' 20 1 GOOD, stored ''p2'' 20 2 GOOD, stored ''p3'' 20 3 GOOD,
                  stored ''p4'' 20 4 GOOD, stored ''p5'' 20 5 GOOD, stored ''p6'' 20 6 GOOD,
                  stored ''p7'' 20 7 GOOD, stored ''p8'' 20 8 GOOD, stored ''p9'' 29 9 GOOD],
      alerts = []\<rparr>"

definition empty_db :: db where
  "empty_db = \<lparr>sensors = [], readings = [], alerts = []\<rparr>"




section \<open>Auxiliary lemmas\<close>

lemma insort_key_snoc:
  "f y \<le> f x \<Longrightarrow> insort_key f y (zs @ [x]) = insort_key f y zs @ [x]"
  by (induction zs) auto

lemma sort_key_snoc:
  "\<forall>y\<in>set xs. f y \<le> f x \<Longrightarrow> sort_key f (xs @ [x]) = sort_key f xs @ [x]"
  by (induction xs) (auto simp: insort_key_snoc)

lemma get_current_last:
  "get_current d sid =
     (let rs = sort_key timestamp (filter (\<lambda>r. r_sensor_id r = sid) (readings d))
      in if rs = [] then None else Some (last rs))"
  by (simp add: get_current_def Let_def split: list.splits)

lemma get_current_insert:
  assumes "\<forall>r\<in>set (readings d). r_sensor_id r = r_sensor_id rd \<longrightarrow> timestamp r \<le> timestamp rd"
  shows "get_current (d\<lparr>readings := readings d @ [rd]\<rparr>) (r_sensor_id rd) = Some rd"
proof -
  let ?old = "filter (\<lambda>r. r_sensor_id r = r_sensor_id rd) (readings d)"
  have "\<forall>y\<in>set ?old. timestamp y \<le> timestamp rd"
    using assms by auto
  then have "sort_key timestamp (?old @ [rd]) = sort_key timestamp ?old @ [rd]"
    by (rule sort_key_snoc)
  then show ?thesis
    by (simp add: get_current_last)
qed

lemma get_sensor_mem:
  "get_sensor d sid = Inr s \<Longrightarrow> s \<in> set (sensors d) \<and> s_id s = sid"
  by (auto simp: get_sensor_def find_Some_iff split: option.splits)

lemma get_sensor_readings_upd [simp]:
  "get_sensor (d\<lparr>readings := rs\<rparr>) sid = get_sensor d sid"
  by (simp add: get_sensor_def)

lemma get_sensor_alerts_upd [simp]:
  "get_sensor (d\<lparr>alerts := rs\<rparr>) sid = get_sensor d sid"
  by (simp add: get_sensor_def)

lemma log_reading_eval:
  assumes sens: "get_sensor d sid = Inr s"
    and qual: "ReadingQuality_of qual = Some q"
    and rid: "rid \<notin> set (map r_id (readings d))"
    and aid: "aid \<notin> set (map a_id (alerts d))"
    and clock: "\<forall>r\<in>set (readings d). r_sensor_id r = sid \<longrightarrow> timestamp r \<le> now"
  shows "log_reading d sid v qual rid now aid anow =
     (let rd = \<lparr>r_id = rid, r_sensor_id = sid, raw_value = v,
                calibrated_value = v + calibration_offset s, timestamp = now, quality = q\<rparr>
      in (d\<lparr>readings := readings d @ [rd],
            alerts := alerts d @
              (if v + calibration_offset s < min_value s then
                 [\<lparr>a_id = aid, a_sensor_id = sid, a_type = THRESHOLD, severity = CRITICAL,
                   message = BelowMinimum (v + calibration_offset s) (min_value s),
                   triggered_at = anow, resolved_at = None\<rparr>]
               else if max_value s < v + calibration_offset s then
                 [\<lparr>a_id = aid, a_sensor_id = sid, a_type = THRESHOLD, severity = CRITICAL,
                   message = AboveMaximum (v + calibration_offset s) (max_value s),
                   triggered_at = anow, resolved_at = None\<rparr>]
               else [])\<rparr>,
          Inr rd))"
proof -
  let ?rd = "\<lparr>r_id = rid, r_sensor_id = sid, raw_value = v,
              calibrated_value = v + calibration_offset s, timestamp = now, quality = q\<rparr>"
  let ?d1 = "d\<lparr>readings := readings d @ [?rd]\<rparr>"
  from sens have mem: "sid \<in> set (map s_id (sensors d))" and sid: "s_id s = sid"
    by (auto dest: get_sensor_mem)
  have ins: "insert_reading d ?rd = Inr ?d1"
    using rid mem by (simp add: insert_reading_def)
  have cur: "get_current ?d1 sid = Some ?rd"
    using get_current_insert [of d ?rd] clock by simp
  show ?thesis
    using sens qual ins cur mem aid sid
    by (auto simp: log_reading_def check_thresholds_def create_alert_def insert_alert_def
        Let_def)
qed

lemma log_reading_sensors:
  "sensors (fst (log_reading d sid v qual rid now aid anow)) = sensors d"
  by (auto simp: log_reading_def check_thresholds_def create_alert_def insert_alert_def
      insert_reading_def Let_def split: sum.splits option.splits prod.splits if_splits)

lemma log_reading_alerts:
  "alerts (fst (log_reading d sid v qual rid now aid anow)) = alerts d \<or>
   (\<exists>a. alerts (fst (log_reading d sid v qual rid now aid anow)) = alerts d @ [a] \<and>
        a_type a = THRESHOLD \<and> severity a = CRITICAL \<and> a_id a = aid)"
  by (auto simp: log_reading_def check_thresholds_def create_alert_def insert_alert_def
      insert_reading_def Let_def split: sum.splits option.splits prod.splits if_splits)

lemma log_reading_Inr:
  assumes "log_reading d sid v qual rid now aid anow = (d1, Inr rd)"
  shows "\<exists>s q. get_sensor d sid = Inr s \<and> ReadingQuality_of qual = Some q \<and>
           rd = \<lparr>r_id = rid, r_sensor_id = sid, raw_value = v,
                 calibrated_value = v + calibration_offset s, timestamp = now, quality = q\<rparr> \<and>
           readings d1 = readings d @ [rd] \<and> sensors d1 = sensors d"
  using assms
  by (auto simp: log_reading_def check_thresholds_def create_alert_def insert_alert_def
      insert_reading_def Let_def split: sum.splits option.splits prod.splits if_splits)

lemma stdev_nonneg: "0 \<le> stdev xs"
proof -
  have "0 \<le> (\<Sum>x\<leftarrow>xs. (x - mean xs)\<^sup>2)"
    by (rule sum_list_nonneg) auto
  then show ?thesis
    by (simp add: stdev_def)
qed

lemma stdev_bessel:
  "2 \<le> length vs \<Longrightarrow>
   stdev vs = sqrt ((\<Sum>x\<leftarrow>vs. (x - (\<Sum>y\<leftarrow>vs. y) / real (length vs))\<^sup>2) / (real (length vs) - 1))"
  by (simp add: stdev_def mean_def)

lemma find_map_upd:
  "find (\<lambda>x. k x = i) xs = Some s \<Longrightarrow> (\<And>x. k (f x) = k x) \<Longrightarrow>
   find (\<lambda>x. k x = i) (map (\<lambda>x. if k x = i then f x else x) xs) = Some (f s)"
  by (induction xs) (auto split: if_splits)

lemma find_map_upd_None:
  "find (\<lambda>x. k x = i) xs = None \<Longrightarrow>
   map (\<lambda>x. if k x = i then f x else x) xs = xs"
  by (induction xs) (auto split: if_splits)

lemma update_calibration_found:
  assumes "get_sensor d sid = Inr s"
  shows "snd (update_calibration d sid off) = Inr (s\<lparr>calibration_offset := off\<rparr>)"
proof -
  from assms have "find (\<lambda>x. s_id x = sid) (sensors d) = Some s"
    by (simp add: get_sensor_def split: option.splits)
  then have "find (\<lambda>x. s_id x = sid)
               (map (\<lambda>x. if s_id x = sid then x\<lparr>calibration_offset := off\<rparr> else x) (sensors d))
             = Some (s\<lparr>calibration_offset := off\<rparr>)"
    by (rule find_map_upd) simp
  then show ?thesis
    by (simp add: update_calibration_def get_sensor_def Let_def)
qed

lemma update_calibration_frame:
  "readings (fst (update_calibration d sid off)) = readings d \<and>
   alerts (fst (update_calibration d sid off)) = alerts d"
  by (simp add: update_calibration_def Let_def)

lemma DEFAULT_THRESHOLDS_ordered:
  "\<exists>lo hi. DEFAULT_THRESHOLDS t = Some (lo, hi) \<and> lo \<le> hi"
  by (cases t) simp_all

lemma find_append_fresh:
  "\<forall>x\<in>set xs. \<not> P x \<Longrightarrow> P y \<Longrightarrow> find P (xs @ [y]) = Some y"
  by (induction xs) auto

lemma map_upd_id:
  "\<forall>x\<in>set xs. k x \<noteq> i \<Longrightarrow> map (\<lambda>x. if k x = i then f x else x) xs = xs"
  by (induction xs) auto

lemma find_map_upd_ex:
  "i \<in> set (map k xs) \<Longrightarrow> (\<And>x. k (f x) = k x) \<Longrightarrow>
   \<exists>a\<in>set xs. k a = i \<and>
     find (\<lambda>x. k x = i) (map (\<lambda>x. if k x = i then f x else x) xs) = Some (f a)"
  by (induction xs) auto

lemma resolve_alert_not_found:
  assumes nf: "alert_id \<notin> set (map a_id (alerts d))"
  shows "resolve_alert d alert_id now = (d, Inl (AlertNotFound alert_id))"
proof -
  have same: "map (\<lambda>a. if a_id a = alert_id then a\<lparr>resolved_at := Some now\<rparr> else a) (alerts d)
               = alerts d"
    using nf by (intro map_upd_id) auto
  have "find (\<lambda>a. a_id a = alert_id) (alerts d) = None"
    using nf by (auto simp: find_None_iff)
  then show ?thesis
    by (simp add: resolve_alert_def Let_def same)
qed

lemma resolve_alert_found:
  assumes "alert_id \<in> set (map a_id (alerts d))"
  shows "\<exists>a0. a0 \<in> set (alerts d) \<and> a_id a0 = alert_id \<and>
           resolve_alert d alert_id now =
             (d\<lparr>alerts := map (\<lambda>a. if a_id a = alert_id then a\<lparr>resolved_at := Some now\<rparr> else a)
                               (alerts d)\<rparr>,
              Inr (a0\<lparr>resolved_at := Some now\<rparr>))"
  using find_map_upd_ex [OF assms, of "\<lambda>a. a\<lparr>resolved_at := Some now\<rparr>"]
  by (auto simp: resolve_alert_def Let_def)

lemma map_upd_all:
  "(\<And>x. k (f x) = k x) \<Longrightarrow> (\<And>x. P (f x)) \<Longrightarrow>
   \<forall>b\<in>set (map (\<lambda>x. if k x = i then f x else x) xs). k b = i \<longrightarrow> P b"
  by (induction xs) auto

lemma resolve_alert_all_set:
  "\<forall>b\<in>set (alerts (fst (resolve_alert d alert_id now))).
      a_id b = alert_id \<longrightarrow> resolved_at b = Some now"
proof -
  have "\<forall>b\<in>set (map (\<lambda>a. if a_id a = alert_id then a\<lparr>resolved_at := Some now\<rparr> else a) (alerts d)).
          a_id b = alert_id \<longrightarrow> resolved_at b = Some now"
    by (rule map_upd_all) simp_all
  moreover have "alerts (fst (resolve_alert d alert_id now)) =
      map (\<lambda>a. if a_id a = alert_id then a\<lparr>resolved_at := Some now\<rparr> else a) (alerts d)"
    by (simp add: resolve_alert_def Let_def)
  ultimately show ?thesis
    by (simp only:)
qed




lemma create_alert_alerts:
  "alerts (fst (create_alert d sid ty sev msg aid now)) = alerts d \<or>
   (\<exists>a. alerts (fst (create_alert d sid ty sev msg aid now)) = alerts d @ [a] \<and>
        a_type a = ty \<and> severity a = sev \<and> a_id a = aid)"
  by (simp add: create_alert_def insert_alert_def Let_def)

lemma batch_log_anomaly_frame:
  "filter (\<lambda>a. a_type a = ANOMALY) (alerts (fst (batch_log d ees))) =
   filter (\<lambda>a. a_type a = ANOMALY) (alerts d)"
proof (induction ees arbitrary: d)
  case Nil
  then show ?case by simp
next
  case (Cons p rest)
  obtain e env where p: "p = (e, env)" by (cases p)
  let ?step = "log_reading d (e_sensor_id e) (e_value e)
                 (case e_quality e of Some q \<Rightarrow> q | None \<Rightarrow> ''good'')
                 (reading_uuid env) (reading_now env) (alert_uuid env) (alert_now env)"
  have one: "filter (\<lambda>a. a_type a = ANOMALY) (alerts (fst ?step)) =
             filter (\<lambda>a. a_type a = ANOMALY) (alerts d)"
    using log_reading_alerts [of d "e_sensor_id e" "e_value e"
             "case e_quality e of Some q \<Rightarrow> q | None \<Rightarrow> ''good''"
             "reading_uuid env" "reading_now env" "alert_uuid env" "alert_now env"]
    by auto
  show ?case
  proof (cases ?step)
    case (Pair d1 res)
    show ?thesis
    proof (cases res)
      case (Inl err)
      then show ?thesis using Pair one p by simp
    next
      case (Inr r)
      then show ?thesis
        using Pair one p Cons.IH [of d1]
        by (auto split: prod.splits sum.splits)
    qed
  qed
qed

lemma resolve_alert_types:
  "map a_type (alerts (fst (resolve_alert d alert_id now))) = map a_type (alerts d) \<and>
   map a_id (alerts (fst (resolve_alert d alert_id now))) = map a_id (alerts d)"
proof -
  have "map k (map (\<lambda>x. if a_id x = i then f x else x) xs) = map k xs"
    if "\<And>x. k (f x) = k x" for k :: "alert \<Rightarrow> 'b" and f i and xs :: "alert list"
    using that by (induction xs) simp_all
  then show ?thesis
    by (simp add: resolve_alert_def Let_def)
qed




lemma demo_get_sensor: "get_sensor demo_db ''s1'' = Inr demo_sensor"
  by (simp add: get_sensor_def demo_db_def demo_sensor_def)

lemma flat_values:
  "anomaly_values flat_db ''s1'' (- 3599999900) = [22, 22, 22, 22, 22]"
  by (simp add: anomaly_values_def flat_db_def stored_def)

lemma spike_values:
  "anomaly_values spike_db ''s1'' (- 3599999900) = [20, 20, 20, 20, 20, 20, 20, 20, 29]"
  by (simp add: anomaly_values_def spike_db_def stored_def)

lemma since_100_60: "minus_minutes 100 60 = Inr (- 3599999900)"
  by (simp add: minus_minutes_def minus_micros_def DATETIME_MIN_def DATETIME_MAX_def Let_def)

lemma sqrt_9: "sqrt 9 = 3"
  using real_sqrt_abs [of 3] by simp

lemma demo_quality_good: "ReadingQuality_of ''good'' = Some GOOD"
  by (simp add: ReadingQuality_of_def)

lemma demo_rid_fresh: "''r1'' \<notin> set (map r_id (readings demo_db))"
  by (simp add: demo_db_def stored_def)

lemma demo_aid_fresh: "''a1'' \<notin> set (map a_id (alerts demo_db))"
  by (simp add: demo_db_def demo_alert_def)


lemma demo_clock_le:
  "\<forall>r\<in>set (readings demo_db). r_sensor_id r = ''s1'' \<longrightarrow> timestamp r \<le> 200"
  by (simp add: demo_db_def stored_def)

lemma demo_log_in_range:
  "log_reading demo_db ''s1'' 20 ''good'' ''r1'' 200 ''a1'' 201 =
     (demo_db\<lparr>readings := readings demo_db @ [stored ''r1'' (43 / 2) 200 GOOD]\<rparr>,
      Inr (stored ''r1'' (43 / 2) 200 GOOD))"
  using log_reading_eval [OF demo_get_sensor demo_quality_good demo_rid_fresh demo_aid_fresh
          demo_clock_le, of 20 201]
  by (simp add: Let_def demo_sensor_def stored_def)



section \<open>Properties of the specification\<close>




text \<open>
  C2. When the window has fewer than 5 qualifying values (readings of the sensor inside the
  window whose quality is not error), or when their sample standard deviation is exactly 0,
  \<open>detect_anomaly\<close> returns None and leaves the database, hence the alerts, as it was.
\<close>

theorem detect_anomaly_none:
  assumes "minus_minutes now window = Inr since"
    and "length (anomaly_values d sid since) < 5 \<or> stdev (anomaly_values d sid since) = 0"
  shows "detect_anomaly d sid window zt now aid anow = (d, Inr None)"
  using assms by (auto simp: detect_anomaly_def Let_def)

theorem detect_anomaly_none_witness:
  "minus_minutes 100 60 = Inr (- 3599999900)
   \<and> length (anomaly_values flat_db ''s1'' (- 3599999900)) = 5
   \<and> stdev (anomaly_values flat_db ''s1'' (- 3599999900)) = 0
   \<and> detect_anomaly flat_db ''s1'' 60 (5 / 2) 100 ''a1'' 101 = (flat_db, Inr None)
   \<and> length (anomaly_values demo_db ''s1'' (- 3599999900)) < 5
   \<and> detect_anomaly demo_db ''s1'' 60 (5 / 2) 100 ''a1'' 101 = (demo_db, Inr None)"
proof -
  have sd: "stdev (anomaly_values flat_db ''s1'' (- 3599999900)) = 0"
    by (simp add: flat_values stdev_def mean_def)
  have few: "length (anomaly_values demo_db ''s1'' (- 3599999900)) < 5"
    by (simp add: anomaly_values_def demo_db_def stored_def)
  show ?thesis
    using detect_anomaly_none [OF since_100_60 disjI2 [OF sd], of "5 / 2" "''a1''" 101]
      detect_anomaly_none [OF since_100_60 disjI1 [OF few], of "5 / 2" "''a1''" 101]
      since_100_60 sd few
    by (simp add: flat_values)
qed

text \<open>
  C3. With at least 5 qualifying values \<open>vs\<close> of non-zero deviation, let \<open>m\<close> be their mean,
  \<open>sd\<close> the square root of the sum of squared deviations divided by \<open>n - 1\<close> (all qualifying
  values, the latest included) and \<open>z = |last vs - m| / sd\<close>. Then \<open>detect_anomaly\<close> appends
  one anomaly alert exactly when \<open>z > z_threshold\<close>, with severity CRITICAL when
  \<open>z > 1.5 * z_threshold\<close> and WARNING otherwise, and returns None without touching the
  database when \<open>z \<le> z_threshold\<close>.
\<close>

theorem detect_anomaly_zscore:
  assumes since: "minus_minutes now window = Inr since"
    and vs: "vs = anomaly_values d sid since"
    and len: "5 \<le> length vs"
    and m: "m = (\<Sum>x\<leftarrow>vs. x) / real (length vs)"
    and sd: "sd = sqrt ((\<Sum>x\<leftarrow>vs. (x - m)\<^sup>2) / (real (length vs) - 1))"
    and nz: "sd \<noteq> 0"
    and z: "z = \<bar>last vs - m\<bar> / sd"
    and sens: "sid \<in> set (map s_id (sensors d))"
    and aid: "aid \<notin> set (map a_id (alerts d))"
  shows "(z > zt \<longrightarrow>
           (\<exists>a. detect_anomaly d sid window zt now aid anow =
                   (d\<lparr>alerts := alerts d @ [a]\<rparr>, Inr (Some a))
               \<and> a_id a = aid \<and> a_sensor_id a = sid \<and> a_type a = ANOMALY \<and> is_active a
               \<and> severity a = (if z > 1.5 * zt then CRITICAL else WARNING)))
       \<and> (\<not> z > zt \<longrightarrow> detect_anomaly d sid window zt now aid anow = (d, Inr None))"
proof -
  have sd_eq: "stdev vs = sd" and m_eq: "mean vs = m"
    using len by (simp_all add: stdev_bessel sd m mean_def)
  have "0 \<le> sd" using stdev_nonneg [of vs] sd_eq by simp
  then have z_eq: "\<bar>(last vs - m) / sd\<bar> = z"
    by (simp add: z)
  have "1.5 * zt = zt * 1.5" by simp
  then show ?thesis
    using since len nz sens aid sd_eq m_eq z_eq vs
    by (auto simp: detect_anomaly_def Let_def create_alert_def insert_alert_def is_active_def
        simp del: abs_divide)
qed

theorem detect_anomaly_zscore_witness:
  "minus_minutes 100 60 = Inr (- 3599999900)
   \<and> anomaly_values spike_db ''s1'' (- 3599999900) = [20, 20, 20, 20, 20, 20, 20, 20, 29]
   \<and> (\<exists>a. detect_anomaly spike_db ''s1'' 60 2 100 ''a9'' 101 =
              (spike_db\<lparr>alerts := alerts spike_db @ [a]\<rparr>, Inr (Some a))
          \<and> a_type a = ANOMALY \<and> severity a = WARNING)
   \<and> (\<exists>a. detect_anomaly spike_db ''s1'' 60 1 100 ''a9'' 101 =
              (spike_db\<lparr>alerts := alerts spike_db @ [a]\<rparr>, Inr (Some a))
          \<and> a_type a = ANOMALY \<and> severity a = CRITICAL)
   \<and> detect_anomaly spike_db ''s1'' 60 3 100 ''a9'' 101 = (spike_db, Inr None)"
proof -
  let ?vs = "[20, 20, 20, 20, 20, 20, 20, 20, 29] :: real list"
  have vs: "?vs = anomaly_values spike_db ''s1'' (- 3599999900)"
    by (simp add: spike_values)
  have len: "5 \<le> length ?vs" by simp
  have m: "(21::real) = (\<Sum>x\<leftarrow>?vs. x) / real (length ?vs)" by simp
  have sd: "(3::real) = sqrt ((\<Sum>x\<leftarrow>?vs. (x - 21)\<^sup>2) / (real (length ?vs) - 1))"
    by (simp add: sqrt_9)
  have nz: "(3::real) \<noteq> 0" by simp
  have z: "(8 / 3 :: real) = \<bar>last ?vs - 21\<bar> / 3" by simp
  have sens: "''s1'' \<in> set (map s_id (sensors spike_db))"
    by (simp add: spike_db_def demo_sensor_def)
  have aid: "''a9'' \<notin> set (map a_id (alerts spike_db))"
    by (simp add: spike_db_def)
  note inst = detect_anomaly_zscore [OF since_100_60 vs len m sd nz z sens aid]
  have w: "\<exists>a. detect_anomaly spike_db ''s1'' 60 2 100 ''a9'' 101 =
              (spike_db\<lparr>alerts := alerts spike_db @ [a]\<rparr>, Inr (Some a))
          \<and> a_type a = ANOMALY \<and> severity a = WARNING"
    using inst [of 2 101] by auto
  have c: "\<exists>a. detect_anomaly spike_db ''s1'' 60 1 100 ''a9'' 101 =
              (spike_db\<lparr>alerts := alerts spike_db @ [a]\<rparr>, Inr (Some a))
          \<and> a_type a = ANOMALY \<and> severity a = CRITICAL"
    using inst [of 1 101] by auto
  have n: "detect_anomaly spike_db ''s1'' 60 3 100 ''a9'' 101 = (spike_db, Inr None)"
    using inst [of 3 101] by simp
  show ?thesis
    using since_100_60 spike_values w c n by (intro conjI)
qed

text \<open>
  C4. A reading returned by \<open>log_reading\<close> is stored with
  \<open>calibrated_value = raw_value + calibration_offset\<close>, the offset being the one the sensor
  had when the reading was ingested. A later \<open>update_calibration\<close> of that sensor changes the
  sensor's offset and leaves the table of readings, every field of every row, as it was.
\<close>

theorem calibrated_value_fixed_at_ingestion:
  assumes lr: "log_reading d sid v qual rid now aid anow = (d1, Inr rd)"
    and uc: "update_calibration d1 sid off = (d2, res)"
  shows "\<exists>s. get_sensor d sid = Inr s
            \<and> raw_value rd = v
            \<and> calibrated_value rd = v + calibration_offset s
            \<and> readings d1 = readings d @ [rd]
            \<and> res = Inr (s\<lparr>calibration_offset := off\<rparr>)
            \<and> readings d2 = readings d1"
proof -
  from log_reading_Inr [OF lr] obtain s q where
    s: "get_sensor d sid = Inr s"
    and rd: "rd = \<lparr>r_id = rid, r_sensor_id = sid, raw_value = v,
                   calibrated_value = v + calibration_offset s, timestamp = now, quality = q\<rparr>"
    and rs: "readings d1 = readings d @ [rd]" and ss: "sensors d1 = sensors d"
    by blast
  have "get_sensor d1 sid = Inr s"
    using s ss by (simp add: get_sensor_def)
  from update_calibration_found [OF this, of off] uc
  have "res = Inr (s\<lparr>calibration_offset := off\<rparr>)" by simp
  moreover have "readings d2 = readings d1"
    using update_calibration_frame [of d1 sid off] uc by simp
  ultimately show ?thesis
    using s rd rs by simp
qed

theorem calibrated_value_fixed_at_ingestion_witness:
  "log_reading demo_db ''s1'' 20 ''good'' ''r1'' 200 ''a1'' 201 =
     (demo_db\<lparr>readings := readings demo_db @ [stored ''r1'' (43 / 2) 200 GOOD]\<rparr>,
      Inr (stored ''r1'' (43 / 2) 200 GOOD))
   \<and> calibrated_value (stored ''r1'' (43 / 2) 200 GOOD) = 20 + calibration_offset demo_sensor
   \<and> snd (update_calibration
             (demo_db\<lparr>readings := readings demo_db @ [stored ''r1'' (43 / 2) 200 GOOD]\<rparr>) ''s1'' 5)
       = Inr (demo_sensor\<lparr>calibration_offset := 5\<rparr>)
   \<and> readings (fst (update_calibration
             (demo_db\<lparr>readings := readings demo_db @ [stored ''r1'' (43 / 2) 200 GOOD]\<rparr>) ''s1'' 5))
       = readings demo_db @ [stored ''r1'' (43 / 2) 200 GOOD]"
proof -
  let ?d1 = "demo_db\<lparr>readings := readings demo_db @ [stored ''r1'' (43 / 2) 200 GOOD]\<rparr>"
  have uc: "update_calibration ?d1 ''s1'' 5 =
              (fst (update_calibration ?d1 ''s1'' 5), snd (update_calibration ?d1 ''s1'' 5))"
    by simp
  from calibrated_value_fixed_at_ingestion [OF demo_log_in_range uc]
  obtain s where s: "get_sensor demo_db ''s1'' = Inr s"
    and cal: "calibrated_value (stored ''r1'' (43 / 2) 200 GOOD) = 20 + calibration_offset s"
    and res: "snd (update_calibration ?d1 ''s1'' 5) = Inr (s\<lparr>calibration_offset := 5\<rparr>)"
    and rs: "readings (fst (update_calibration ?d1 ''s1'' 5)) = readings ?d1"
    by blast
  from s have "s = demo_sensor"
    by (simp add: demo_get_sensor)
  with cal res rs demo_log_in_range show ?thesis
    by simp
qed

text \<open>
  C5 (as amended). \<open>add_sensor\<close> validates no range: for a valid sensor type and a fresh
  identifier it always succeeds, and stores as \<open>min_value\<close> and \<open>max_value\<close> the bounds the
  caller gave, each replaced by the entry of the default table when omitted. Every entry of
  the table is ordered, so a sensor registered with both bounds omitted has
  \<open>min_value \<le> max_value\<close>. The counterexample registers a sensor with bounds 10 and 5.
\<close>

theorem add_sensor_range:
  assumes ty: "SensorType_of sensor_type = Some stype"
    and fresh: "new_id \<notin> set (map s_id (sensors d))"
  shows "\<exists>s lo hi. add_sensor d device_id sensor_type unit min_v max_v offset name location new_id
                 = (d\<lparr>sensors := sensors d @ [s]\<rparr>, Inr s)
           \<and> DEFAULT_THRESHOLDS stype = Some (lo, hi) \<and> lo \<le> hi
           \<and> min_value s = (case min_v of Some v \<Rightarrow> v | None \<Rightarrow> lo)
           \<and> max_value s = (case max_v of Some v \<Rightarrow> v | None \<Rightarrow> hi)
           \<and> (min_v = None \<and> max_v = None \<longrightarrow> min_value s \<le> max_value s)"
proof -
  obtain lo hi where tab: "DEFAULT_THRESHOLDS stype = Some (lo, hi)" and ord: "lo \<le> hi"
    using DEFAULT_THRESHOLDS_ordered by blast
  let ?s = "\<lparr>s_id = new_id, s_device_id = device_id, s_type = stype, s_unit = unit,
              min_value = (case min_v of Some v \<Rightarrow> v | None \<Rightarrow> lo),
              max_value = (case max_v of Some v \<Rightarrow> v | None \<Rightarrow> hi),
              calibration_offset = offset, s_name = name, s_location = location\<rparr>"
  have "find (\<lambda>x. s_id x = new_id) (sensors d @ [?s]) = Some ?s"
    using fresh by (intro find_append_fresh) auto
  then have "add_sensor d device_id sensor_type unit min_v max_v offset name location new_id
               = (d\<lparr>sensors := sensors d @ [?s]\<rparr>, Inr ?s)"
    using ty tab fresh
    by (cases min_v; cases max_v)
       (simp_all add: add_sensor_def insert_sensor_def get_sensor_def Let_def)
  then show ?thesis
    using tab ord by (intro exI [of _ ?s] exI [of _ lo] exI [of _ hi]) simp
qed

theorem add_sensor_unordered_counterexample:
  "add_sensor empty_db ''dev-1'' ''temperature'' ''C'' (Some 10) (Some 5) 0 None None ''s1'' =
     (\<lparr>sensors = [\<lparr>s_id = ''s1'', s_device_id = ''dev-1'', s_type = TEMPERATURE, s_unit = ''C'',
                    min_value = 10, max_value = 5, calibration_offset = 0,
                    s_name = None, s_location = None\<rparr>],
       readings = [], alerts = []\<rparr>,
      Inr \<lparr>s_id = ''s1'', s_device_id = ''dev-1'', s_type = TEMPERATURE, s_unit = ''C'',
           min_value = 10, max_value = 5, calibration_offset = 0,
           s_name = None, s_location = None\<rparr>)
   \<and> \<not> (10 :: real) \<le> 5"
  by (simp add: add_sensor_def SensorType_of_def insert_sensor_def get_sensor_def empty_db_def
      Let_def)

theorem add_sensor_range_witness:
  "SensorType_of ''humidity'' = Some HUMIDITY
   \<and> ''s2'' \<notin> set (map s_id (sensors demo_db))
   \<and> (\<exists>s. add_sensor demo_db ''dev-1'' ''humidity'' ''%'' None None 0 (Some ''Humidity-1'') None ''s2''
            = (demo_db\<lparr>sensors := sensors demo_db @ [s]\<rparr>, Inr s)
          \<and> min_value s = 0 \<and> max_value s = 100 \<and> min_value s \<le> max_value s)"
proof -
  have ty: "SensorType_of ''humidity'' = Some HUMIDITY"
    by (simp add: SensorType_of_def)
  have fresh: "''s2'' \<notin> set (map s_id (sensors demo_db))"
    by (simp add: demo_db_def demo_sensor_def)
  from add_sensor_range [OF ty fresh, of "''dev-1''" "''%''" None None 0 "Some ''Humidity-1''" None]
  obtain s lo hi where
    "add_sensor demo_db ''dev-1'' ''humidity'' ''%'' None None 0 (Some ''Humidity-1'') None ''s2''
       = (demo_db\<lparr>sensors := sensors demo_db @ [s]\<rparr>, Inr s)"
    and "DEFAULT_THRESHOLDS HUMIDITY = Some (lo, hi)"
    and "min_value s = (case None of Some v \<Rightarrow> v | None \<Rightarrow> lo)"
    and "max_value s = (case None of Some v \<Rightarrow> v | None \<Rightarrow> hi)"
    and "min_value s \<le> max_value s"
    by auto
  then have "\<exists>s. add_sensor demo_db ''dev-1'' ''humidity'' ''%'' None None 0 (Some ''Humidity-1'') None ''s2''
            = (demo_db\<lparr>sensors := sensors demo_db @ [s]\<rparr>, Inr s)
          \<and> min_value s = 0 \<and> max_value s = 100 \<and> min_value s \<le> max_value s"
    by auto
  with ty fresh show ?thesis by (intro conjI)
qed

text \<open>
  C6. \<open>resolve_alert\<close> on an identifier that no alert has fails with the not-found error and
  returns the database unchanged. On an identifier that an alert has, it succeeds, sets
  \<open>resolved_at\<close> of that alert to the current time, and the alert it returns is not active.
\<close>

theorem resolve_alert_result:
  "(alert_id \<notin> set (map a_id (alerts d)) \<longrightarrow>
      resolve_alert d alert_id now = (d, Inl (AlertNotFound alert_id)))
   \<and> (alert_id \<in> set (map a_id (alerts d)) \<longrightarrow>
      (\<exists>a0. a0 \<in> set (alerts d) \<and> a_id a0 = alert_id \<and>
         resolve_alert d alert_id now =
           (d\<lparr>alerts := map (\<lambda>a. if a_id a = alert_id then a\<lparr>resolved_at := Some now\<rparr> else a)
                             (alerts d)\<rparr>,
            Inr (a0\<lparr>resolved_at := Some now\<rparr>))
         \<and> resolved_at (a0\<lparr>resolved_at := Some now\<rparr>) = Some now
         \<and> \<not> is_active (a0\<lparr>resolved_at := Some now\<rparr>)))"
proof (rule conjI)
  show "alert_id \<notin> set (map a_id (alerts d)) \<longrightarrow>
          resolve_alert d alert_id now = (d, Inl (AlertNotFound alert_id))"
    by (rule impI) (rule resolve_alert_not_found)
next
  show "alert_id \<in> set (map a_id (alerts d)) \<longrightarrow>
      (\<exists>a0. a0 \<in> set (alerts d) \<and> a_id a0 = alert_id \<and>
         resolve_alert d alert_id now =
           (d\<lparr>alerts := map (\<lambda>a. if a_id a = alert_id then a\<lparr>resolved_at := Some now\<rparr> else a)
                             (alerts d)\<rparr>,
            Inr (a0\<lparr>resolved_at := Some now\<rparr>))
         \<and> resolved_at (a0\<lparr>resolved_at := Some now\<rparr>) = Some now
         \<and> \<not> is_active (a0\<lparr>resolved_at := Some now\<rparr>))"
  proof (rule impI)
    assume "alert_id \<in> set (map a_id (alerts d))"
    from resolve_alert_found [OF this, of now]
    obtain a0 where mem: "a0 \<in> set (alerts d)" and id: "a_id a0 = alert_id"
      and res: "resolve_alert d alert_id now =
           (d\<lparr>alerts := map (\<lambda>a. if a_id a = alert_id then a\<lparr>resolved_at := Some now\<rparr> else a)
                             (alerts d)\<rparr>,
            Inr (a0\<lparr>resolved_at := Some now\<rparr>))"
      by blast
    have upd: "resolved_at (a0\<lparr>resolved_at := Some now\<rparr>) = Some now"
      by simp
    then have act: "\<not> is_active (a0\<lparr>resolved_at := Some now\<rparr>)"
      by (simp add: is_active_def)
    show "\<exists>a0. a0 \<in> set (alerts d) \<and> a_id a0 = alert_id \<and>
         resolve_alert d alert_id now =
           (d\<lparr>alerts := map (\<lambda>a. if a_id a = alert_id then a\<lparr>resolved_at := Some now\<rparr> else a)
                             (alerts d)\<rparr>,
            Inr (a0\<lparr>resolved_at := Some now\<rparr>))
         \<and> resolved_at (a0\<lparr>resolved_at := Some now\<rparr>) = Some now
         \<and> \<not> is_active (a0\<lparr>resolved_at := Some now\<rparr>)"
      by (rule exI [of _ a0]) (intro conjI mem id res upd act)
  qed
qed

theorem resolve_alert_result_witness:
  "''zz'' \<notin> set (map a_id (alerts demo_db))
   \<and> resolve_alert demo_db ''zz'' 300 = (demo_db, Inl (AlertNotFound ''zz''))
   \<and> ''a0'' \<in> set (map a_id (alerts demo_db))
   \<and> resolve_alert demo_db ''a0'' 300 =
        (demo_db\<lparr>alerts := [demo_alert\<lparr>resolved_at := Some 300\<rparr>]\<rparr>,
         Inr (demo_alert\<lparr>resolved_at := Some 300\<rparr>))
   \<and> is_active demo_alert
   \<and> \<not> is_active (demo_alert\<lparr>resolved_at := Some 300\<rparr>)"
proof -
  have nf: "''zz'' \<notin> set (map a_id (alerts demo_db))"
    by (simp add: demo_db_def demo_alert_def)
  have ex: "''a0'' \<in> set (map a_id (alerts demo_db))"
    by (simp add: demo_db_def demo_alert_def)
  have r1: "resolve_alert demo_db ''zz'' 300 = (demo_db, Inl (AlertNotFound ''zz''))"
    using resolve_alert_result [of "''zz''" demo_db 300] nf by simp
  from resolve_alert_result [of "''a0''" demo_db 300] ex
  obtain a0 where mem: "a0 \<in> set (alerts demo_db)"
    and res: "resolve_alert demo_db ''a0'' 300 =
           (demo_db\<lparr>alerts := map (\<lambda>a. if a_id a = ''a0'' then a\<lparr>resolved_at := Some 300\<rparr> else a)
                             (alerts demo_db)\<rparr>,
            Inr (a0\<lparr>resolved_at := Some 300\<rparr>))"
    and act: "\<not> is_active (a0\<lparr>resolved_at := Some 300\<rparr>)"
    by blast
  from mem have a0: "a0 = demo_alert"
    by (simp add: demo_db_def)
  have al: "alerts demo_db = [demo_alert]" and id: "a_id demo_alert = ''a0''"
    by (simp_all add: demo_db_def demo_alert_def)
  have r2: "resolve_alert demo_db ''a0'' 300 =
        (demo_db\<lparr>alerts := [demo_alert\<lparr>resolved_at := Some 300\<rparr>]\<rparr>,
         Inr (demo_alert\<lparr>resolved_at := Some 300\<rparr>))"
    using res by (simp add: a0 al id)
  have a: "is_active demo_alert"
    by (simp add: is_active_def demo_alert_def)
  show ?thesis
    using nf r1 ex r2 a act a0 by (intro conjI) simp_all
qed




text \<open>
  C8. Whatever its arguments, \<open>log_reading\<close> leaves the alerts as they were or appends a
  single alert of type threshold; the alerts of type anomaly are the same before and after
  it. The same holds for \<open>batch_log\<close> and \<open>mark_sensor_offline\<close>; \<open>resolve_alert\<close> changes
  the type of no alert, and \<open>update_calibration\<close> and \<open>add_sensor\<close> leave the alerts
  untouched. So an anomaly alert can only come from \<open>detect_anomaly\<close>.
\<close>

theorem anomaly_alerts_only_from_detect_anomaly:
  "(alerts (fst (log_reading d sid v qual rid now aid anow)) = alerts d \<or>
    (\<exists>a. alerts (fst (log_reading d sid v qual rid now aid anow)) = alerts d @ [a] \<and>
         a_type a = THRESHOLD))
   \<and> filter (\<lambda>a. a_type a = ANOMALY) (alerts (fst (log_reading d sid v qual rid now aid anow)))
       = filter (\<lambda>a. a_type a = ANOMALY) (alerts d)
   \<and> filter (\<lambda>a. a_type a = ANOMALY) (alerts (fst (batch_log d ees)))
       = filter (\<lambda>a. a_type a = ANOMALY) (alerts d)
   \<and> filter (\<lambda>a. a_type a = ANOMALY) (alerts (fst (mark_sensor_offline d sid aid now)))
       = filter (\<lambda>a. a_type a = ANOMALY) (alerts d)
   \<and> map a_type (alerts (fst (resolve_alert d alert_id now))) = map a_type (alerts d)
   \<and> alerts (fst (update_calibration d sid off)) = alerts d
   \<and> alerts (fst (add_sensor d device_id sensor_type unit min_v max_v off name location new_id))
       = alerts d"
proof -
  have lr: "alerts (fst (log_reading d sid v qual rid now aid anow)) = alerts d \<or>
    (\<exists>a. alerts (fst (log_reading d sid v qual rid now aid anow)) = alerts d @ [a] \<and>
         a_type a = THRESHOLD)"
    using log_reading_alerts [of d sid v qual rid now aid anow] by auto
  then have lrf: "filter (\<lambda>a. a_type a = ANOMALY) (alerts (fst (log_reading d sid v qual rid now aid anow)))
       = filter (\<lambda>a. a_type a = ANOMALY) (alerts d)"
    by auto
  have off: "filter (\<lambda>a. a_type a = ANOMALY) (alerts (fst (mark_sensor_offline d sid aid now)))
       = filter (\<lambda>a. a_type a = ANOMALY) (alerts d)"
    using create_alert_alerts [of d sid OFFLINE WARNING "OfflineMessage sid" aid now]
    by (auto simp: mark_sensor_offline_def)
  have add: "alerts (fst (add_sensor d device_id sensor_type unit min_v max_v off name location new_id))
       = alerts d"
    by (simp add: add_sensor_def insert_sensor_def Let_def split: option.splits)
  show ?thesis
    by (intro conjI lr lrf batch_log_anomaly_frame off add
        conjunct1 [OF resolve_alert_types] conjunct2 [OF update_calibration_frame])
qed



text \<open>
  C10. Resolving an existing alert twice: the second call succeeds like the first, and
  replaces \<open>resolved_at\<close> by its own clock reading. The alert it returns is the first call's
  result with the new \<open>resolved_at\<close>, it is not active, and every stored alert with that
  identifier carries the new timestamp.
\<close>

theorem resolve_alert_twice:
  assumes "alert_id \<in> set (map a_id (alerts d))"
  shows "\<exists>d1 a1 d2 a2.
           resolve_alert d alert_id t1 = (d1, Inr a1) \<and> resolved_at a1 = Some t1
         \<and> resolve_alert d1 alert_id t2 = (d2, Inr a2)
         \<and> a2 = a1\<lparr>resolved_at := Some t2\<rparr> \<and> \<not> is_active a2
         \<and> (\<forall>b\<in>set (alerts d2). a_id b = alert_id \<longrightarrow> resolved_at b = Some t2)"
proof -
  let ?f1 = "\<lambda>a. if a_id a = alert_id then a\<lparr>resolved_at := Some t1\<rparr> else a"
  let ?f2 = "\<lambda>a. if a_id a = alert_id then a\<lparr>resolved_at := Some t2\<rparr> else a"
  let ?d1 = "d\<lparr>alerts := map ?f1 (alerts d)\<rparr>"
  let ?d2 = "?d1\<lparr>alerts := map ?f2 (alerts ?d1)\<rparr>"
  from find_map_upd_ex [OF assms, of "\<lambda>a. a\<lparr>resolved_at := Some t1\<rparr>"]
  obtain a0 where f1: "find (\<lambda>a. a_id a = alert_id) (map ?f1 (alerts d))
                         = Some (a0\<lparr>resolved_at := Some t1\<rparr>)"
    by auto
  let ?a1 = "a0\<lparr>resolved_at := Some t1\<rparr>"
  let ?a2 = "?a1\<lparr>resolved_at := Some t2\<rparr>"
  have r1: "resolve_alert d alert_id t1 = (?d1, Inr ?a1)"
    using f1 by (simp add: resolve_alert_def Let_def)
  have "find (\<lambda>a. a_id a = alert_id) (map ?f2 (alerts ?d1)) = Some ?a2"
    using find_map_upd [of a_id alert_id "alerts ?d1" ?a1 "\<lambda>a. a\<lparr>resolved_at := Some t2\<rparr>"] f1
    by simp
  then have r2: "resolve_alert ?d1 alert_id t2 = (?d2, Inr ?a2)"
    by (simp add: resolve_alert_def Let_def)
  have c1: "resolved_at ?a1 = Some t1" by simp
  have c2: "\<not> is_active ?a2" by (simp add: is_active_def)
  have c3: "\<forall>b\<in>set (alerts ?d2). a_id b = alert_id \<longrightarrow> resolved_at b = Some t2"
    using resolve_alert_all_set [of ?d1 alert_id t2] by (simp only: r2 fst_conv)
  show ?thesis
    by (rule exI [of _ ?d1], rule exI [of _ ?a1], rule exI [of _ ?d2], rule exI [of _ ?a2])
       (intro conjI r1 c1 r2 refl c2 c3)
qed

theorem resolve_alert_twice_witness:
  "''a0'' \<in> set (map a_id (alerts demo_db))
   \<and> resolve_alert demo_db ''a0'' 300 =
        (demo_db\<lparr>alerts := [demo_alert\<lparr>resolved_at := Some 300\<rparr>]\<rparr>,
         Inr (demo_alert\<lparr>resolved_at := Some 300\<rparr>))
   \<and> resolve_alert (demo_db\<lparr>alerts := [demo_alert\<lparr>resolved_at := Some 300\<rparr>]\<rparr>) ''a0'' 400 =
        (demo_db\<lparr>alerts := [demo_alert\<lparr>resolved_at := Some 400\<rparr>]\<rparr>,
         Inr (demo_alert\<lparr>resolved_at := Some 400\<rparr>))
   \<and> (\<exists>d1 a1 d2 a2.
           resolve_alert demo_db ''a0'' 300 = (d1, Inr a1) \<and> resolved_at a1 = Some 300
         \<and> resolve_alert d1 ''a0'' 400 = (d2, Inr a2)
         \<and> a2 = a1\<lparr>resolved_at := Some 400\<rparr> \<and> \<not> is_active a2
         \<and> (\<forall>b\<in>set (alerts d2). a_id b = ''a0'' \<longrightarrow> resolved_at b = Some 400))"
proof -
  have ex: "''a0'' \<in> set (map a_id (alerts demo_db))"
    by (simp add: demo_db_def demo_alert_def)
  have al: "alerts demo_db = [demo_alert]" and id: "a_id demo_alert = ''a0''"
    by (simp_all add: demo_db_def demo_alert_def)
  have r1: "resolve_alert demo_db ''a0'' 300 =
        (demo_db\<lparr>alerts := [demo_alert\<lparr>resolved_at := Some 300\<rparr>]\<rparr>,
         Inr (demo_alert\<lparr>resolved_at := Some 300\<rparr>))"
    by (simp add: resolve_alert_def Let_def al id)
  have r2: "resolve_alert (demo_db\<lparr>alerts := [demo_alert\<lparr>resolved_at := Some 300\<rparr>]\<rparr>) ''a0'' 400 =
        (demo_db\<lparr>alerts := [demo_alert\<lparr>resolved_at := Some 400\<rparr>]\<rparr>,
         Inr (demo_alert\<lparr>resolved_at := Some 400\<rparr>))"
    by (simp add: resolve_alert_def Let_def id)
  show ?thesis
    by (intro conjI ex r1 r2 resolve_alert_twice [OF ex])
qed

end
